theory Spec2Isabelle
  imports Main "HOL-Library.AList" "HOL-Library.Char_ord" "HOL-Library.List_Lexorder"
begin

section \<open>Strings and the string primitives of the host language\<close>

text \<open>
  The code under verification is \<^verbatim>\<open>src/TFWRIntelliSense.tsx\<close>. Its strings are modelled as
  \<^typ>\<open>string\<close>, one \<^typ>\<open>char\<close> per code unit. The model is exact on ASCII text: every
  identifier the patterns of the source capture is ASCII, upper and lower case are the ASCII
  ones, and white space is the ASCII white space (tab, line feed, vertical tab, form feed,
  carriage return, space). A plain object used as a dictionary is modelled as an association
  list in insertion order with \<^const>\<open>AList.update\<close> as assignment (an existing key keeps
  its place, a new key goes to the end) and \<^const>\<open>map_of\<close> as lookup of own keys; keys
  inherited from the prototype of a plain object are outside the model.
\<close>

definition is_upper :: "char \<Rightarrow> bool" where
  "is_upper c = (CHR ''A'' \<le> c \<and> c \<le> CHR ''Z'')"

definition is_lower :: "char \<Rightarrow> bool" where
  "is_lower c = (CHR ''a'' \<le> c \<and> c \<le> CHR ''z'')"

definition is_digit :: "char \<Rightarrow> bool" where
  "is_digit c = (CHR ''0'' \<le> c \<and> c \<le> CHR ''9'')"

text \<open>The character classes \<^verbatim>\<open>[A-Za-z_]\<close>, \<^verbatim>\<open>[A-Za-z0-9_]\<close> (also \<^verbatim>\<open>\w\<close>) and \<^verbatim>\<open>\s\<close>.\<close>

definition is_alpha_us :: "char \<Rightarrow> bool" where
  "is_alpha_us c = (is_upper c \<or> is_lower c \<or> c = CHR ''_'')"

definition is_word :: "char \<Rightarrow> bool" where
  "is_word c = (is_upper c \<or> is_lower c \<or> is_digit c \<or> c = CHR ''_'')"

definition is_space :: "char \<Rightarrow> bool" where
  "is_space c = (c \<in> set [CHR 0x09, CHR 0x0A, CHR 0x0B, CHR 0x0C, CHR 0x0D, CHR '' ''])"

definition is_line_terminator :: "char \<Rightarrow> bool" where
  "is_line_terminator c = (c = CHR 0x0A \<or> c = CHR 0x0D)"

text \<open>A negated class \<^verbatim>\<open>[^...]\<close>.\<close>

definition none_of :: "string \<Rightarrow> char \<Rightarrow> bool" where
  "none_of cs c = (c \<notin> set cs)"

definition lower_char :: "char \<Rightarrow> char" where
  "lower_char c =
     (case map_of (zip ''ABCDEFGHIJKLMNOPQRSTUVWXYZ'' ''abcdefghijklmnopqrstuvwxyz'') c of
        Some l \<Rightarrow> l
      | None \<Rightarrow> c)"

definition toLowerCase :: "string \<Rightarrow> string" where
  "toLowerCase s = map lower_char s"

definition trimStart :: "string \<Rightarrow> string" where
  "trimStart s = dropWhile is_space s"

definition trimEnd :: "string \<Rightarrow> string" where
  "trimEnd s = rev (dropWhile is_space (rev s))"

definition trim :: "string \<Rightarrow> string" where
  "trim s = trimEnd (trimStart s)"

text \<open>\<^verbatim>\<open>s.split(",")\<close>: the pieces between the separators, at least one piece.\<close>

fun split_on :: "char \<Rightarrow> string \<Rightarrow> string list" where
  "split_on sep [] = [[]]"
| "split_on sep (c # cs) =
     (if c = sep then [] # split_on sep cs
      else (case split_on sep cs of p # ps \<Rightarrow> (c # p) # ps | [] \<Rightarrow> [[c]]))"


text \<open>\<^verbatim>\<open>(s.match(/,/g) || []).length\<close>: the number of commas of \<open>s\<close>.\<close>

definition commaCount :: "string \<Rightarrow> nat" where
  "commaCount s = length (filter (\<lambda>c. c = CHR '','') s)"

text \<open>\<^verbatim>\<open>n.toString()\<close> for a natural number and \<^verbatim>\<open>s.padStart(n, "0")\<close>.\<close>

definition digit_char :: "nat \<Rightarrow> char" where
  "digit_char d = ''0123456789'' ! d"

fun toString :: "nat \<Rightarrow> string" where
  "toString n = (if n < 10 then [digit_char n] else toString (n div 10) @ [digit_char (n mod 10)])"

declare toString.simps [simp del]

definition padStart :: "nat \<Rightarrow> char \<Rightarrow> string \<Rightarrow> string" where
  "padStart n c s = replicate (n - length s) c @ s"

section \<open>Regular expressions as the source writes them\<close>

text \<open>
  Every quantifier of the source (\<^verbatim>\<open>*\<close>, \<^verbatim>\<open>+\<close>) is applied to one character class, so
  \<open>Star\<close> takes a class. \<open>Bol\<close> and \<open>Eol\<close> are \<^verbatim>\<open>^\<close> and \<^verbatim>\<open>$\<close> without the flag
  \<^verbatim>\<open>m\<close>, \<open>BolM\<close> and \<open>EolM\<close> with it; \<open>WordB\<close> is \<^verbatim>\<open>\b\<close>; \<open>Grp n\<close> is the \<open>n\<close>-th
  capturing group.
\<close>

datatype regex =
    Eps
  | Cls "char \<Rightarrow> bool"
  | Star "char \<Rightarrow> bool"
  | Lit string
  | Cat regex regex
  | Alt regex regex
  | Opt regex
  | Grp nat regex
  | Bol
  | BolM
  | Eol
  | EolM
  | WordB

definition seqs :: "regex list \<Rightarrow> regex" where
  "seqs rs = foldr Cat rs Eps"

definition alts :: "regex \<Rightarrow> regex list \<Rightarrow> regex" where
  "alts r rs = foldl Alt r rs"

definition Plus :: "(char \<Rightarrow> bool) \<Rightarrow> regex" where
  "Plus p = Cat (Cls p) (Star p)"

text \<open>
  A matcher state: the text before the position (reversed, so that its head is the
  previous character), the text from the position on, and the captures made so far
  (the latest first).
\<close>

type_synonym mstate = "string \<times> string \<times> (nat \<times> string) list"

text \<open>Greedy repetition of a class: the longest run first, then each shorter one.\<close>

fun star_states :: "(char \<Rightarrow> bool) \<Rightarrow> string \<Rightarrow> string \<Rightarrow> (nat \<times> string) list \<Rightarrow> mstate list" where
  "star_states p b [] cs = [(b, [], cs)]"
| "star_states p b (x # xs) cs =
     (if p x then star_states p (x # b) xs cs @ [(b, x # xs, cs)] else [(b, x # xs, cs)])"

definition word_boundary :: "string \<Rightarrow> string \<Rightarrow> bool" where
  "word_boundary b r =
     ((case b of [] \<Rightarrow> False | x # _ \<Rightarrow> is_word x) \<noteq> (case r of [] \<Rightarrow> False | y # _ \<Rightarrow> is_word y))"

text \<open>
  The backtracking matcher: all the ways the pattern matches at the position, in the
  order in which backtracking tries them. The first one is the match the engine reports.
  An optional group tries its content first. (The one optional group of the source cannot
  match the empty text, so the rule that rejects an empty iteration never applies.)
\<close>

fun ms :: "regex \<Rightarrow> mstate \<Rightarrow> mstate list" where
  "ms Eps s = [s]"
| "ms (Cls p) (b, r, cs) = (case r of [] \<Rightarrow> [] | x # xs \<Rightarrow> if p x then [(x # b, xs, cs)] else [])"
| "ms (Star p) (b, r, cs) = star_states p b r cs"
| "ms (Lit l) (b, r, cs) =
     (if take (length l) r = l then [(rev l @ b, drop (length l) r, cs)] else [])"
| "ms (Cat r1 r2) s = concat (map (ms r2) (ms r1 s))"
| "ms (Alt r1 r2) s = ms r1 s @ ms r2 s"
| "ms (Opt r1) s = ms r1 s @ [s]"
| "ms (Grp n r1) (b, r, cs) =
     map (\<lambda>(b', r', cs'). (b', r', (n, take (length r - length r') r) # cs')) (ms r1 (b, r, cs))"
| "ms Bol (b, r, cs) = (if b = [] then [(b, r, cs)] else [])"
| "ms BolM (b, r, cs) =
     (if (case b of [] \<Rightarrow> True | x # _ \<Rightarrow> is_line_terminator x) then [(b, r, cs)] else [])"
| "ms Eol (b, r, cs) = (if r = [] then [(b, r, cs)] else [])"
| "ms EolM (b, r, cs) =
     (if (case r of [] \<Rightarrow> True | x # _ \<Rightarrow> is_line_terminator x) then [(b, r, cs)] else [])"
| "ms WordB (b, r, cs) = (if word_boundary b r then [(b, r, cs)] else [])"

text \<open>The result of \<^verbatim>\<open>exec\<close>: index, matched text, groups, and where the match ends.\<close>

record rmatch =
  m_index :: nat
  m_text :: string
  m_groups :: "(nat \<times> string) list"
  m_before :: string
  m_rest :: string

definition mk_match :: "string \<Rightarrow> string \<Rightarrow> mstate \<Rightarrow> rmatch" where
  "mk_match b r s =
     (case s of (b', r', cs) \<Rightarrow>
        \<lparr> m_index = length b, m_text = take (length r - length r') r, m_groups = cs,
          m_before = b', m_rest = r' \<rparr>)"

text \<open>\<open>group m n\<close> is \<^verbatim>\<open>m[n]\<close>; \<open>None\<close> is \<^verbatim>\<open>undefined\<close>.\<close>

definition group :: "rmatch \<Rightarrow> nat \<Rightarrow> string option" where
  "group m n = map_of (m_groups m) n"

text \<open>The search of \<^verbatim>\<open>exec\<close>: the leftmost position at which the pattern matches.\<close>

fun search :: "regex \<Rightarrow> string \<Rightarrow> string \<Rightarrow> rmatch option" where
  "search re b [] = (case ms re (b, [], []) of [] \<Rightarrow> None | s # _ \<Rightarrow> Some (mk_match b [] s))"
| "search re b (x # xs) =
     (case ms re (b, x # xs, []) of
        [] \<Rightarrow> search re (x # b) xs
      | s # _ \<Rightarrow> Some (mk_match b (x # xs) s))"

text \<open>\<^verbatim>\<open>re.exec(text)\<close> for a pattern without the flag \<^verbatim>\<open>g\<close>.\<close>

definition exec :: "regex \<Rightarrow> string \<Rightarrow> rmatch option" where
  "exec re text = search re [] text"

text \<open>
  \<^verbatim>\<open>while ((m = re.exec(text)) !== null) { ... }\<close> for a pattern with the flag \<^verbatim>\<open>g\<close>:
  each call searches from \<^verbatim>\<open>lastIndex\<close>, the end of the previous match. A match that ends
  where the search started leaves \<^verbatim>\<open>lastIndex\<close> where it was and the loop never ends: that
  is the result \<open>None\<close>.
\<close>

function exec_all :: "regex \<Rightarrow> string \<Rightarrow> string \<Rightarrow> rmatch list option" where
  "exec_all re b r =
     (case search re b r of
        None \<Rightarrow> Some []
      | Some m \<Rightarrow>
          if length (m_rest m) < length r
          then map_option (Cons m) (exec_all re (m_before m) (m_rest m))
          else None)"
  by pat_completeness auto
termination
  by (relation "measure (\<lambda>(re, b, r). length r)") auto

declare exec_all.simps [simp del]

section \<open>The document index\<close>

datatype CoreType = TList | TDict | TSet | TStr | TUnknown

record fn_info =
  fi_params :: "string list"
  fi_label :: string

text \<open>The field \<^verbatim>\<open>functions\<close> of the index is \<open>fns\<close> here.\<close>

record SymbolIndex =
  vars :: "(string \<times> CoreType) list"
  fns :: "(string \<times> fn_info) list"

record MethodInfo =
  mi_name :: string
  mi_label :: string
  mi_params :: "string list"
  mi_doc :: "string option"

definition list_methods :: "MethodInfo list" where
  "list_methods =
    [ \<lparr> mi_name = ''append'', mi_label = ''list.append(item: Any) -> None'',
        mi_params = [''item: Any''], mi_doc = Some ''Append item to the end of the list.'' \<rparr>,
      \<lparr> mi_name = ''remove'', mi_label = ''list.remove(item: Any) -> None'',
        mi_params = [''item: Any''],
        mi_doc = Some ''Remove first occurrence of item. Raises if not present.'' \<rparr>,
      \<lparr> mi_name = ''insert'', mi_label = ''list.insert(index: int, item: Any) -> None'',
        mi_params = [''index: int'', ''item: Any''],
        mi_doc = Some ''Insert item at a given position.'' \<rparr>,
      \<lparr> mi_name = ''pop'', mi_label = ''list.pop(index: Optional[int] = None) -> Any'',
        mi_params = [''index: Optional[int] = None''],
        mi_doc = Some ''Remove and return item at index (default last).'' \<rparr> ]"

definition dict_methods :: "MethodInfo list" where
  "dict_methods =
    [ \<lparr> mi_name = ''pop'', mi_label = ''dict.pop(key: Any) -> Any'',
        mi_params = [''key: Any''],
        mi_doc = Some ''Remove specified key and return the corresponding value.'' \<rparr> ]"

definition set_methods :: "MethodInfo list" where
  "set_methods =
    [ \<lparr> mi_name = ''add'', mi_label = ''set.add(item: Any) -> None'',
        mi_params = [''item: Any''], mi_doc = Some ''Add element to the set.'' \<rparr>,
      \<lparr> mi_name = ''remove'', mi_label = ''set.remove(item: Any) -> None'',
        mi_params = [''item: Any''],
        mi_doc = Some ''Remove element from the set. Raises if not present.'' \<rparr> ]"

text \<open>
  \<^verbatim>\<open>METHOD_METADATA[varType]\<close>; the table has the keys list, dict and set only, and the
  source reads it under the test that \<^verbatim>\<open>varType\<close> is one of them.
\<close>

fun METHOD_METADATA :: "CoreType \<Rightarrow> MethodInfo list option" where
  "METHOD_METADATA TList = Some list_methods"
| "METHOD_METADATA TDict = Some dict_methods"
| "METHOD_METADATA TSet = Some set_methods"
| "METHOD_METADATA TStr = None"
| "METHOD_METADATA TUnknown = None"

text \<open>The identifier pattern \<^verbatim>\<open>[A-Za-z_][A-Za-z0-9_]*\<close> and \<^verbatim>\<open>\s*\<close>.\<close>

definition ident :: regex where
  "ident = Cat (Cls is_alpha_us) (Star is_word)"

definition ws :: regex where
  "ws = Star is_space"

text \<open>
  \<open>grp m n\<close> is \<^verbatim>\<open>m[n] || ""\<close>. Group 1 of every pattern of the source takes part in every
  match, so that \<open>grp m 1\<close> is \<^verbatim>\<open>m[1]\<close>.
\<close>

definition grp :: "rmatch \<Rightarrow> nat \<Rightarrow> string" where
  "grp m n = (case group m n of Some s \<Rightarrow> s | None \<Rightarrow> [])"

text \<open>\<^verbatim>\<open>paramsRaw ? paramsRaw.split(",").map((p) => p.trim()) : []\<close>\<close>

definition split_params :: "string \<Rightarrow> string list" where
  "split_params paramsRaw = (if paramsRaw = [] then [] else map trim (split_on CHR '','' paramsRaw))"

text \<open>\<^verbatim>\<open>/^def\s+([A-Za-z_][A-Za-z0-9_]*)\s*\(([^)]*)\)\s*:/gm\<close>\<close>

definition def_re :: regex where
  "def_re = seqs [BolM, Lit ''def'', Plus is_space, Grp 1 ident, ws, Lit ''('',
                  Grp 2 (Star (none_of '')'')), Lit '')'', ws, Lit '':'']"

text \<open>\<^verbatim>\<open>/^([A-Za-z_][A-Za-z0-9_]*)\s*:\s*(list|dict|set|str)\b/gm\<close>\<close>

definition annot_re :: regex where
  "annot_re = seqs [BolM, Grp 1 ident, ws, Lit '':'', ws,
                    Grp 2 (alts (Lit ''list'') [Lit ''dict'', Lit ''set'', Lit ''str'']), WordB]"

text \<open>\<^verbatim>\<open>m[2] as CoreType\<close> for the annotation pattern, whose group 2 is one of four words.\<close>

definition coreType_of :: "string \<Rightarrow> CoreType" where
  "coreType_of s =
     (if s = ''list'' then TList else if s = ''dict'' then TDict
      else if s = ''set'' then TSet else if s = ''str'' then TStr else TUnknown)"

text \<open>The head \<^verbatim>\<open>^([A-Za-z_][A-Za-z0-9_]*)\s*=\s*\<close> that the assignment patterns share.\<close>

definition assign_re :: "regex list \<Rightarrow> regex" where
  "assign_re rhs = seqs ([BolM, Grp 1 ident, ws, Lit ''='', ws] @ rhs)"

definition list_patterns :: "regex list" where
  "list_patterns =
    [ assign_re [Lit ''['', ws, Lit '']'', ws, EolM],
      assign_re [Lit ''['', Star (none_of '']''), Lit '']'', ws, EolM],
      assign_re [Lit ''list'', ws, Lit ''(''] ]"

definition dict_patterns :: "regex list" where
  "dict_patterns =
    [ assign_re [Lit ''{'', ws, Lit ''}'', ws, EolM],
      assign_re [Lit ''{'', Star (none_of ''}''), Lit '':'', Star (none_of ''}''), Lit ''}'', ws, EolM],
      assign_re [Lit ''dict'', ws, Lit ''(''] ]"

definition set_patterns :: "regex list" where
  "set_patterns = [ assign_re [Lit ''set'', ws, Lit ''(''] ]"

definition str_patterns :: "regex list" where
  "str_patterns =
    [ assign_re [Grp 2 (Alt (seqs [Lit [CHR 0x22], Star (none_of [CHR 0x22]), Lit [CHR 0x22]])
                            (seqs [Lit [CHR 0x27], Star (none_of [CHR 0x27]), Lit [CHR 0x27]])),
                 ws, EolM],
      assign_re [Lit ''str'', ws, Lit ''(''] ]"

definition assignPatterns :: "(CoreType \<times> regex list) list" where
  "assignPatterns =
    [(TList, list_patterns), (TDict, dict_patterns), (TSet, set_patterns), (TStr, str_patterns)]"

text \<open>The body of the loop over the function declarations.\<close>

definition add_function :: "(string \<times> fn_info) list \<Rightarrow> rmatch \<Rightarrow> (string \<times> fn_info) list" where
  "add_function fs m =
     (let name = grp m 1;
          paramsRaw = trim (grp m 2);
          params = split_params paramsRaw
      in AList.update name \<lparr> fi_params = params, fi_label = name @ ''('' @ paramsRaw @ '')'' \<rparr> fs)"

definition add_annotation :: "(string \<times> CoreType) list \<Rightarrow> rmatch \<Rightarrow> (string \<times> CoreType) list" where
  "add_annotation vs m = AList.update (grp m 1) (coreType_of (grp m 2)) vs"

definition add_assignment ::
  "CoreType \<Rightarrow> (string \<times> CoreType) list \<Rightarrow> rmatch \<Rightarrow> (string \<times> CoreType) list" where
  "add_assignment t vs m = AList.update (grp m 1) t vs"

text \<open>\<^verbatim>\<open>for (const re of regs) { while ((m = re.exec(text)) !== null) vars[m[1]] = t; }\<close>\<close>

fun apply_regs ::
  "CoreType \<Rightarrow> regex list \<Rightarrow> string \<Rightarrow> (string \<times> CoreType) list \<Rightarrow> (string \<times> CoreType) list option" where
  "apply_regs t [] text vs = Some vs"
| "apply_regs t (re # res) text vs =
     (case exec_all re [] text of
        None \<Rightarrow> None
      | Some found \<Rightarrow> apply_regs t res text (foldl (add_assignment t) vs found))"

text \<open>\<^verbatim>\<open>for (const [t, regs] of assignPatterns) ...\<close>\<close>

fun apply_patterns ::
  "(CoreType \<times> regex list) list \<Rightarrow> string \<Rightarrow> (string \<times> CoreType) list \<Rightarrow> (string \<times> CoreType) list option" where
  "apply_patterns [] text vs = Some vs"
| "apply_patterns ((t, regs) # ps) text vs =
     (case apply_regs t regs text vs of
        None \<Rightarrow> None
      | Some vs' \<Rightarrow> apply_patterns ps text vs')"

text \<open>
  \<^verbatim>\<open>buildSymbolIndex\<close>. The result \<open>None\<close> stands for a scanning loop that never ends.
\<close>

definition buildSymbolIndex :: "string \<Rightarrow> SymbolIndex option" where
  "buildSymbolIndex text =
     (case exec_all def_re [] text of
        None \<Rightarrow> None
      | Some defs \<Rightarrow>
         (case exec_all annot_re [] text of
            None \<Rightarrow> None
          | Some annots \<Rightarrow>
             (case apply_patterns assignPatterns text (foldl add_annotation [] annots) of
                None \<Rightarrow> None
              | Some vs \<Rightarrow> Some \<lparr> vars = vs, fns = foldl add_function [] defs \<rparr>)))"

section \<open>The catalog and the signature help provider\<close>

text \<open>
  \<^verbatim>\<open>ParsedBuiltins\<close>. An optional field is an \<open>option\<close>; an entry of \<open>classes\<close> is its
  \<^verbatim>\<open>members\<close>, an entry of \<open>constants\<close> is its \<^verbatim>\<open>doc\<close>. The field \<^verbatim>\<open>functions\<close> is
  \<open>cfunctions\<close> here.
\<close>

record fn_entry =
  doc :: "string option"
  signatureLabel :: "string option"
  params :: "string list option"
  returnType :: "string option"

record ParsedBuiltins =
  classes :: "(string \<times> (string \<times> string option) list) list"
  cfunctions :: "(string \<times> fn_entry) list"
  constants :: "(string \<times> string option) list"
  classNames :: "string list"



text \<open>\<^verbatim>\<open>d ? { value: d } : undefined\<close>: an absent or empty string gives \<^verbatim>\<open>undefined\<close>.\<close>

definition doc_value :: "string option \<Rightarrow> string option" where
  "doc_value d = (case d of None \<Rightarrow> None | Some s \<Rightarrow> if s = [] then None else Some s)"

text \<open>\<^verbatim>\<open>(symIndex.vars && symIndex.vars[id]) || "unknown"\<close>\<close>

definition var_type :: "SymbolIndex \<Rightarrow> string \<Rightarrow> CoreType" where
  "var_type symIndex x = (case map_of (vars symIndex) x of Some t \<Rightarrow> t | None \<Rightarrow> TUnknown)"










section \<open>The catalog parser\<close>




















section \<open>The completion provider\<close>

text \<open>The host's values: a position, a range, the word at a position.\<close>

record position =
  lineNumber :: nat
  column :: nat

record mrange =
  startLineNumber :: nat
  rangeStartColumn :: nat
  endLineNumber :: nat
  rangeEndColumn :: nat



datatype CompletionItemKind = Method | EnumMember | Function | Class | Constant

text \<open>A suggestion. A field that the source leaves out is \<open>None\<close>.\<close>

record completion_item =
  ci_label :: string
  ci_kind :: CompletionItemKind
  ci_insertText :: string
  ci_range :: mrange
  ci_detail :: string
  ci_documentation :: "string option"
  ci_sortText :: string
  ci_preselect :: "bool option"

text \<open>The name of a core type, as \<^verbatim>\<open>${varType}\<close> prints it.\<close>

fun core_name :: "CoreType \<Rightarrow> string" where
  "core_name TList = ''list''"
| "core_name TDict = ''dict''"
| "core_name TSet = ''set''"
| "core_name TStr = ''str''"
| "core_name TUnknown = ''unknown''"

text \<open>\<^verbatim>\<open>`${tier}_${idx.toString().padStart(3, "0")}_${name}`\<close>\<close>

definition sort_key :: "string \<Rightarrow> nat \<Rightarrow> string \<Rightarrow> string" where
  "sort_key tier idx name = tier @ ''_'' @ padStart 3 CHR ''0'' (toString idx) @ ''_'' @ name"

text \<open>\<^verbatim>\<open>xs.map((x, idx) => f(x, idx))\<close>\<close>

definition map_idx :: "('a \<Rightarrow> nat \<Rightarrow> 'b) \<Rightarrow> 'a list \<Rightarrow> 'b list" where
  "map_idx f xs = map (\<lambda>(idx, x). f x idx) (List.enumerate 0 xs)"

text \<open>\<^verbatim>\<open>/(?:^|\W)([A-Za-z_][A-Za-z0-9_]*)\.[A-Za-z_0-9]*$/\<close>\<close>

definition member_access_re :: regex where
  "member_access_re =
     seqs [Alt Bol (Cls (\<lambda>c. \<not> is_word c)), Grp 1 ident, Lit ''.'', Star is_word, Eol]"

definition method_suggestion :: "CoreType \<Rightarrow> mrange \<Rightarrow> MethodInfo \<Rightarrow> nat \<Rightarrow> completion_item" where
  "method_suggestion varType rng mi idx =
     \<lparr> ci_label = mi_name mi, ci_kind = Method, ci_insertText = mi_name mi @ ''()'',
       ci_range = rng, ci_detail = core_name varType @ '' method'',
       ci_documentation =
         (case doc_value (mi_doc mi) of
            Some d \<Rightarrow> Some (mi_label mi @ [CHR 0x0A, CHR 0x0A] @ d)
          | None \<Rightarrow> Some (mi_label mi)),
       ci_sortText = sort_key ''0'' idx (mi_name mi), ci_preselect = Some (idx = 0) \<rparr>"

definition member_suggestion :: "string \<Rightarrow> mrange \<Rightarrow> string \<times> string option \<Rightarrow> nat \<Rightarrow> completion_item" where
  "member_suggestion clsKey rng member idx =
     (case member of (name, d) \<Rightarrow>
        \<lparr> ci_label = name, ci_kind = EnumMember, ci_insertText = name, ci_range = rng,
          ci_detail = clsKey @ '' member'', ci_documentation = doc_value d,
          ci_sortText = sort_key ''0'' idx name, ci_preselect = Some (idx = 0) \<rparr>)"

text \<open>
  The branch \<^verbatim>\<open>identifier.\<close>: the methods of a variable or the members of a catalog
  class. \<open>None\<close> means that the branch falls through to the top level.
\<close>

definition member_completions ::
  "ParsedBuiltins \<Rightarrow> SymbolIndex \<Rightarrow> mrange \<Rightarrow> string \<Rightarrow> completion_item list option" where
  "member_completions builtins symIndex rng linePrefix =
     (case exec member_access_re linePrefix of
        None \<Rightarrow> None
      | Some m \<Rightarrow>
         (let ident_name = grp m 1;
              varType = var_type symIndex ident_name
          in if varType = TList \<or> varType = TDict \<or> varType = TSet
             then (case METHOD_METADATA varType of
                     Some methods \<Rightarrow> Some (map_idx (method_suggestion varType rng) methods)
                   | None \<Rightarrow> None)
             else (case find (\<lambda>k. toLowerCase k = toLowerCase ident_name) (map fst (classes builtins)) of
                     Some clsKey \<Rightarrow>
                       (case map_of (classes builtins) clsKey of
                          Some members \<Rightarrow> Some (map_idx (member_suggestion clsKey rng) members)
                        | None \<Rightarrow> None)
                   | None \<Rightarrow> None)))"

definition localFunctionSuggestions :: "SymbolIndex \<Rightarrow> mrange \<Rightarrow> completion_item list" where
  "localFunctionSuggestions symIndex rng =
     map_idx (\<lambda>(name, info) idx.
        \<lparr> ci_label = name, ci_kind = Function, ci_insertText = name @ ''()'', ci_range = rng,
          ci_detail = ''function (document)'', ci_documentation = Some (fi_label info),
          ci_sortText = sort_key ''1'' idx name, ci_preselect = None \<rparr>) (fns symIndex)"

definition classSuggestions :: "ParsedBuiltins \<Rightarrow> mrange \<Rightarrow> completion_item list" where
  "classSuggestions builtins rng =
     map_idx (\<lambda>name idx.
        \<lparr> ci_label = name, ci_kind = Class, ci_insertText = name, ci_range = rng,
          ci_detail = ''class'', ci_documentation = None,
          ci_sortText = sort_key ''1a'' idx name, ci_preselect = None \<rparr>) (classNames builtins)"

definition functionSuggestions :: "ParsedBuiltins \<Rightarrow> mrange \<Rightarrow> completion_item list" where
  "functionSuggestions builtins rng =
     map_idx (\<lambda>(name, info) idx.
        \<lparr> ci_label = name, ci_kind = Function, ci_insertText = name @ ''()'', ci_range = rng,
          ci_detail = ''function'', ci_documentation = doc_value (doc info),
          ci_sortText = sort_key ''2'' idx name, ci_preselect = None \<rparr>) (cfunctions builtins)"

definition constantSuggestions :: "ParsedBuiltins \<Rightarrow> mrange \<Rightarrow> completion_item list" where
  "constantSuggestions builtins rng =
     map_idx (\<lambda>(name, d) idx.
        \<lparr> ci_label = name, ci_kind = Constant, ci_insertText = name, ci_range = rng,
          ci_detail = ''constant'', ci_documentation = doc_value d,
          ci_sortText = sort_key ''3'' idx name, ci_preselect = None \<rparr>) (constants builtins)"

text \<open>The top level: the functions of the document and the catalog.\<close>

definition top_level_completions :: "ParsedBuiltins \<Rightarrow> SymbolIndex \<Rightarrow> mrange \<Rightarrow> completion_item list" where
  "top_level_completions builtins symIndex rng =
     localFunctionSuggestions symIndex rng @ classSuggestions builtins rng @
     functionSuggestions builtins rng @ constantSuggestions builtins rng"

text \<open>
  \<^verbatim>\<open>provideCompletionItems\<close>. \<open>lineText\<close> is the text of the line up to the cursor and
  \<open>rng\<close> is the range of the word before the cursor, both read from the host.
\<close>

definition provideCompletionItems ::
  "ParsedBuiltins \<Rightarrow> SymbolIndex \<Rightarrow> mrange \<Rightarrow> string \<Rightarrow> completion_item list" where
  "provideCompletionItems builtins symIndex rng lineText =
     (case member_completions builtins symIndex rng (trimEnd lineText) of
        Some suggestions \<Rightarrow> suggestions
      | None \<Rightarrow> top_level_completions builtins symIndex rng)"

text \<open>The four tiers of the top level, in the order in which the source concatenates them.\<close>

definition tiers :: "ParsedBuiltins \<Rightarrow> SymbolIndex \<Rightarrow> mrange \<Rightarrow> completion_item list list" where
  "tiers builtins symIndex rng =
     [localFunctionSuggestions symIndex rng, classSuggestions builtins rng,
      functionSuggestions builtins rng, constantSuggestions builtins rng]"

section \<open>The hover provider\<close>









section \<open>The index manager\<close>

text \<open>
  What the manager reads from a document of the host: its key and its text. Reading the
  text is a call into the host and may throw; \<open>Inl\<close> is the exception.
\<close>

datatype error = Thrown string

record text_model =
  uri :: "string option"
  getValue :: "error + string"

text \<open>\<^verbatim>\<open>model?.uri?.toString?.() || "default"\<close>\<close>

definition modelKey :: "text_model \<Rightarrow> string" where
  "modelKey model = (case uri model of None \<Rightarrow> ''default'' | Some u \<Rightarrow> if u = [] then ''default'' else u)"

text \<open>
  The maps \<^verbatim>\<open>symbolIndexes\<close> and \<^verbatim>\<open>indexTimers\<close>. A timer is known by the number that
  \<^verbatim>\<open>setTimeout\<close> returned.
\<close>

record manager =
  symbolIndexes :: "string \<rightharpoonup> SymbolIndex"
  indexTimers :: "string \<rightharpoonup> nat"

definition empty_index :: SymbolIndex where
  "empty_index = \<lparr> vars = [], fns = [] \<rparr>"

text \<open>
  The expression \<^verbatim>\<open>buildSymbolIndex(model.getValue())\<close> under a \<^verbatim>\<open>try\<close>: its exception
  or its value; \<open>None\<close> when it never returns.
\<close>

definition try_build :: "text_model \<Rightarrow> (error + SymbolIndex) option" where
  "try_build model =
     (case getValue model of
        Inl e \<Rightarrow> Some (Inl e)
      | Inr text \<Rightarrow> map_option Inr (buildSymbolIndex text))"

text \<open>\<^verbatim>\<open>getOrBuildIndex\<close>: the index and the state after the call.\<close>

definition getOrBuildIndex :: "manager \<Rightarrow> text_model \<Rightarrow> (SymbolIndex \<times> manager) option" where
  "getOrBuildIndex st model =
     (let key = modelKey model in
      case symbolIndexes st key of
        Some idx \<Rightarrow> Some (idx, st)
      | None \<Rightarrow>
         (case try_build model of
            None \<Rightarrow> None
          | Some built \<Rightarrow>
             (let idx = (case built of Inl e \<Rightarrow> empty_index | Inr i \<Rightarrow> i)
              in Some (idx, st \<lparr> symbolIndexes := (symbolIndexes st)(key \<mapsto> idx) \<rparr>))))"

text \<open>
  The rebuild that a timer runs, with the key that the notification computed:
  \<^verbatim>\<open>try { symbolIndexes.set(key, buildSymbolIndex(model.getValue())); } catch {}\<close>
\<close>

definition rebuild :: "manager \<Rightarrow> string \<Rightarrow> text_model \<Rightarrow> manager option" where
  "rebuild st key model =
     (case try_build model of
        None \<Rightarrow> None
      | Some (Inl e) \<Rightarrow> Some st
      | Some (Inr idx) \<Rightarrow> Some (st \<lparr> symbolIndexes := (symbolIndexes st)(key \<mapsto> idx) \<rparr>))"

section \<open>Timers and content changes\<close>

text \<open>
  The part of the host that the debounced rebuild uses: a clock in milliseconds, the
  timers that are set and not yet run or cleared (number, time due, and the key that the
  callback holds), and the document, whose text the callback reads when it runs.
  \<^verbatim>\<open>setTimeout\<close> returns a fresh number greater than zero. The field \<open>rebuilds\<close> is not
  state of the program: it records, for every callback that ran, the number of its timer
  and what \<^verbatim>\<open>model.getValue()\<close> gave it.
\<close>

record world =
  mgr :: manager
  document :: text_model
  clock :: nat
  next_id :: nat
  pending :: "(nat \<times> nat \<times> string) list"
  rebuilds :: "(nat \<times> (error + string)) list"

text \<open>The quiet period of the source, in milliseconds.\<close>

definition debounce :: nat where
  "debounce = 200"

definition clearTimeout :: "nat \<Rightarrow> world \<Rightarrow> world" where
  "clearTimeout t w = w \<lparr> pending := filter (\<lambda>(i, due, key). i \<noteq> t) (pending w) \<rparr>"

definition setTimeout :: "string \<Rightarrow> nat \<Rightarrow> world \<Rightarrow> nat \<times> world" where
  "setTimeout key delay w =
     (next_id w,
      w \<lparr> pending := pending w @ [(next_id w, clock w + delay, key)], next_id := next_id w + 1 \<rparr>)"

text \<open>
  The handler of \<^verbatim>\<open>model.onDidChangeContent\<close>. \<^verbatim>\<open>if (t) clearTimeout(t)\<close>: a number that
  is absent or zero is not cleared.
\<close>

definition onDidChangeContent :: "world \<Rightarrow> world" where
  "onDidChangeContent w =
     (let key = modelKey (document w);
          w1 = (case indexTimers (mgr w) key of
                  Some t \<Rightarrow> if t \<noteq> 0 then clearTimeout t w else w
                | None \<Rightarrow> w);
          (nt, w2) = setTimeout key debounce w1
      in w2 \<lparr> mgr := (mgr w2) \<lparr> indexTimers := (indexTimers (mgr w2))(key \<mapsto> nt) \<rparr> \<rparr>)"

text \<open>The callback of a timer: the rebuild, on the document as it is when the timer runs.\<close>

definition run_timer :: "nat \<times> nat \<times> string \<Rightarrow> world \<Rightarrow> world option" where
  "run_timer t w =
     (case t of (i, due, key) \<Rightarrow>
        (case rebuild (mgr w) key (document w) of
           None \<Rightarrow> None
         | Some m \<Rightarrow> Some (w \<lparr> mgr := m, rebuilds := rebuilds w @ [(i, getValue (document w))] \<rparr>)))"

fun run_timers :: "(nat \<times> nat \<times> string) list \<Rightarrow> world \<Rightarrow> world option" where
  "run_timers [] w = Some w"
| "run_timers (t # ts) w = (case run_timer t w of None \<Rightarrow> None | Some w' \<Rightarrow> run_timers ts w')"

text \<open>
  Time passes until \<open>t\<close>: the timers due by then run, in the order in which they were set
  (all delays are equal, so this is the order in which they are due).
\<close>

definition advance :: "nat \<Rightarrow> world \<Rightarrow> world option" where
  "advance t w =
     run_timers (filter (\<lambda>(i, due, key). due \<le> t) (pending w))
       (w \<lparr> pending := filter (\<lambda>(i, due, key). \<not> due \<le> t) (pending w), clock := t \<rparr>)"

text \<open>An edit at the time \<open>t\<close>: the text of the document becomes \<open>s\<close> and the host notifies.\<close>

definition edit :: "nat \<times> string \<Rightarrow> world \<Rightarrow> world option" where
  "edit e w =
     (case e of (t, s) \<Rightarrow>
        (case advance t w of
           None \<Rightarrow> None
         | Some w1 \<Rightarrow> Some (onDidChangeContent (w1 \<lparr> document := (document w1) \<lparr> getValue := Inr s \<rparr> \<rparr>))))"

fun edits :: "(nat \<times> string) list \<Rightarrow> world \<Rightarrow> world option" where
  "edits [] w = Some w"
| "edits (e # es) w = (case edit e w of None \<Rightarrow> None | Some w' \<Rightarrow> edits es w')"

text \<open>
  \<open>within_quiet t es\<close>: each edit of \<open>es\<close> comes no earlier than the one before it (the
  first no earlier than \<open>t\<close>) and before the timer of the one before it is due.
\<close>

fun within_quiet :: "nat \<Rightarrow> (nat \<times> string) list \<Rightarrow> bool" where
  "within_quiet t [] = True"
| "within_quiet t ((t', s) # es) = (t \<le> t' \<and> t' < t + debounce \<and> within_quiet t' es)"

text \<open>
  \<open>armed w t s key i\<close>: the last edit came at the time \<open>t\<close> and left the text \<open>s\<close>, and
  its timer, with the number \<open>i\<close>, is the one timer that is pending.
\<close>

definition armed :: "world \<Rightarrow> nat \<Rightarrow> string \<Rightarrow> string \<Rightarrow> nat \<Rightarrow> bool" where
  "armed w t s key i =
     (pending w = [(i, t + debounce, key)] \<and> indexTimers (mgr w) key = Some i \<and> i \<noteq> 0 \<and>
      next_id w = i + 1 \<and> getValue (document w) = Inr s \<and> modelKey (document w) = key \<and>
      clock w = t)"

section \<open>Lengths of matches\<close>

text \<open>The least number of characters that a match of a pattern takes.\<close>

fun minlen :: "regex \<Rightarrow> nat" where
  "minlen Eps = 0"
| "minlen (Cls p) = 1"
| "minlen (Star p) = 0"
| "minlen (Lit l) = length l"
| "minlen (Cat r1 r2) = minlen r1 + minlen r2"
| "minlen (Alt r1 r2) = min (minlen r1) (minlen r2)"
| "minlen (Opt r1) = 0"
| "minlen (Grp n r1) = minlen r1"
| "minlen Bol = 0"
| "minlen BolM = 0"
| "minlen Eol = 0"
| "minlen EolM = 0"
| "minlen WordB = 0"

section \<open>Which identifiers a rule captures\<close>

text \<open>
  \<open>captured re text x\<close>: the scan of \<open>text\<close> with the pattern \<open>re\<close> has a match whose
  group 1 is \<open>x\<close>. \<open>assigned t text x\<close>: a pattern of the assignment category \<open>t\<close>
  captures \<open>x\<close>. \<open>annotated_as t text x\<close>: the annotation pattern captures \<open>x\<close> with the
  type \<open>t\<close>.
\<close>

definition captured :: "regex \<Rightarrow> string \<Rightarrow> string \<Rightarrow> bool" where
  "captured re text x =
     (case exec_all re [] text of
        Some found \<Rightarrow> x \<in> set (map (\<lambda>m. grp m 1) found)
      | None \<Rightarrow> False)"

definition assigned :: "CoreType \<Rightarrow> string \<Rightarrow> string \<Rightarrow> bool" where
  "assigned t text x =
     list_ex (\<lambda>(t', regs). t' = t \<and> list_ex (\<lambda>re. captured re text x) regs) assignPatterns"


section \<open>The texts that a pattern can match\<close>

text \<open>
  \<open>lang re u\<close>: the pattern \<open>re\<close> can take the text \<open>u\<close>, whatever stands around it
  (the assertions \<^verbatim>\<open>^\<close>, \<^verbatim>\<open>$\<close> and \<^verbatim>\<open>\b\<close> take no text). Every match of the matcher is
  such a text. \<open>line_start b\<close>: the position after the reversed text \<open>b\<close> is the start of a
  line.
\<close>

fun lang :: "regex \<Rightarrow> string \<Rightarrow> bool" where
  "lang Eps u = (u = [])"
| "lang (Cls p) u = (\<exists>c. u = [c] \<and> p c)"
| "lang (Star p) u = (\<forall>c \<in> set u. p c)"
| "lang (Lit l) u = (u = l)"
| "lang (Cat r1 r2) u = (\<exists>u1 u2. u = u1 @ u2 \<and> lang r1 u1 \<and> lang r2 u2)"
| "lang (Alt r1 r2) u = (lang r1 u \<or> lang r2 u)"
| "lang (Opt r1) u = (u = [] \<or> lang r1 u)"
| "lang (Grp n r1) u = lang r1 u"
| "lang Bol u = (u = [])"
| "lang BolM u = (u = [])"
| "lang Eol u = (u = [])"
| "lang EolM u = (u = [])"
| "lang WordB u = (u = [])"


section \<open>Documents, catalogs and states of the examples\<close>

text \<open>A catalog without entries, for the examples.\<close>

definition no_builtins :: ParsedBuiltins where
  "no_builtins = \<lparr> classes = [], cfunctions = [], constants = [], classNames = [] \<rparr>"

text \<open>The index of the document \<^verbatim>\<open>def f(x, y, z):\<close> and the help for a call of \<open>f\<close>.\<close>

definition index_f3 :: SymbolIndex where
  "index_f3 =
     \<lparr> vars = [],
       fns = [(''f'', \<lparr> fi_params = [''x'', ''y'', ''z''], fi_label = ''f(x, y, z)'' \<rparr>)] \<rparr>"












text \<open>The document \<^verbatim>\<open>def Foo(a):\<close>, its index and the help for a call of \<open>Foo\<close>.\<close>

definition index_Foo :: SymbolIndex where
  "index_Foo = \<lparr> vars = [], fns = [(''Foo'', \<lparr> fi_params = [''a''], fi_label = ''Foo(a)'' \<rparr>)] \<rparr>"







text \<open>A document that the host has disposed of, and a state that holds an index for it.\<close>

definition disposed_model :: text_model where
  "disposed_model = \<lparr> uri = None, getValue = Inl (Thrown ''Model is disposed!'') \<rparr>"

definition manager_f3 :: manager where
  "manager_f3 = \<lparr> symbolIndexes = [''default'' \<mapsto> index_f3], indexTimers = Map.empty \<rparr>"

definition manager_empty :: manager where
  "manager_empty = \<lparr> symbolIndexes = Map.empty, indexTimers = Map.empty \<rparr>"

definition rng0 :: mrange where
  "rng0 = \<lparr> startLineNumber = 2, rangeStartColumn = 3, endLineNumber = 2, rangeEndColumn = 3 \<rparr>"



text \<open>A document index with the 1001 functions \<open>f0\<close>, ..., \<open>f1000\<close>.\<close>

definition index_1001 :: SymbolIndex where
  "index_1001 =
     \<lparr> vars = [],
       fns = map (\<lambda>i. (''f'' @ toString i,
                        \<lparr> fi_params = [], fi_label = ''f'' @ toString i @ ''()'' \<rparr>)) [0..<1001] \<rparr>"

text \<open>A catalog with one class, one function and one constant.\<close>

definition builtins_sample :: ParsedBuiltins where
  "builtins_sample =
     \<lparr> classes = [(''Items'', [(''Hay'', Some ''Dry grass.''), (''Wood'', None)])],
       cfunctions =
         [(''move'', \<lparr> doc = Some ''Moves the drone.'', signatureLabel = Some ''move(direction)'',
                       params = Some [''direction''], returnType = Some [] \<rparr>)],
       constants = [(''North'', Some ''The direction north.'')],
       classNames = [''Items''] \<rparr>"

text \<open>
  A world right after the set-up of a document without functions, and three edits within
  the quiet period.
\<close>

definition world0 :: world where
  "world0 =
     \<lparr> mgr = \<lparr> symbolIndexes = [''default'' \<mapsto> empty_index], indexTimers = Map.empty \<rparr>,
       document = \<lparr> uri = None, getValue = Inr [] \<rparr>,
       clock = 0, next_id = 1, pending = [], rebuilds = [] \<rparr>"

definition three_edits :: "(nat \<times> string) list" where
  "three_edits = [(10, ''d''), (60, ''def f(x, y'' ), (150, ''def f(x, y, z):'')]"




section \<open>Evaluation\<close>

lemmas char_class_defs =
  is_upper_def is_lower_def is_digit_def is_alpha_us_def is_word_def is_space_def
  is_line_terminator_def none_of_def lower_char_def toLowerCase_def

lemmas string_defs =
  trim_def trimStart_def trimEnd_def commaCount_def digit_char_def padStart_def

lemmas regex_defs =
  seqs_def alts_def Plus_def word_boundary_def mk_match_def group_def grp_def exec_def
  ident_def ws_def exec_all.simps

lemmas index_defs =
  def_re_def annot_re_def assign_re_def list_patterns_def dict_patterns_def set_patterns_def
  str_patterns_def assignPatterns_def add_function_def add_annotation_def add_assignment_def
  buildSymbolIndex_def coreType_of_def split_params_def

lemmas eval_defs = char_class_defs string_defs regex_defs index_defs

lemmas completion_defs =
  member_access_re_def method_suggestion_def member_suggestion_def member_completions_def
  provideCompletionItems_def map_idx_def sort_key_def enumerate_eq_zip toString.simps
  localFunctionSuggestions_def classSuggestions_def functionSuggestions_def
  constantSuggestions_def top_level_completions_def


section \<open>Signature help: the active parameter\<close>







section \<open>Every scan ends\<close>

lemma star_states_length:
  "(b', r', cs') \<in> set (star_states p b r cs) \<Longrightarrow> length r' \<le> length r"
  by (induction p b r cs rule: star_states.induct) (auto split: if_splits)

lemma take_eq_length:
  assumes "take (length l) r = l"
  shows "length l \<le> length r"
proof -
  from assms have "length (take (length l) r) = length l" by simp
  then show ?thesis by simp
qed

lemma ms_minlen:
  "(b', r', cs') \<in> set (ms re (b, r, cs)) \<Longrightarrow> length r' + minlen re \<le> length r"
proof (induction re arbitrary: b r cs b' r' cs')
  case (Cls p)
  then show ?case by (auto split: list.splits if_splits)
next
  case (Star p)
  then show ?case by (auto dest: star_states_length)
next
  case (Lit l)
  then show ?case by (auto split: if_splits dest: take_eq_length)
next
  case (Cat re1 re2)
  from Cat.prems obtain b1 r1 cs1 where
    s1: "(b1, r1, cs1) \<in> set (ms re1 (b, r, cs))" and s2: "(b', r', cs') \<in> set (ms re2 (b1, r1, cs1))"
    by auto
  from Cat.IH(1) [OF s1] Cat.IH(2) [OF s2] show ?case by simp
next
  case (Alt re1 re2)
  then show ?case by fastforce
next
  case (Opt re)
  then show ?case by fastforce
next
  case (Grp n re)
  then show ?case by fastforce
qed (auto split: if_splits)

lemma mk_match_rest: "m_rest (mk_match b r (b', r', cs')) = r'"
  by (simp add: mk_match_def)

lemma search_minlen:
  "search re b r = Some m \<Longrightarrow> length (m_rest m) + minlen re \<le> length r"
proof (induction re b r rule: search.induct)
  case (1 re b)
  show ?case
  proof (cases "ms re (b, [], [])")
    case Nil
    with 1 show ?thesis by simp
  next
    case (Cons s ss)
    obtain b' r' cs' where s: "s = (b', r', cs')" by (cases s)
    with Cons have "(b', r', cs') \<in> set (ms re (b, [], []))" by simp
    from ms_minlen [OF this] 1 Cons s show ?thesis by (auto simp: mk_match_rest)
  qed
next
  case (2 re b x xs)
  show ?case
  proof (cases "ms re (b, x # xs, [])")
    case Nil
    with 2 show ?thesis by auto
  next
    case (Cons s ss)
    obtain b' r' cs' where s: "s = (b', r', cs')" by (cases s)
    with Cons have "(b', r', cs') \<in> set (ms re (b, x # xs, []))" by simp
    from ms_minlen [OF this] 2(2) Cons s show ?thesis by (auto simp: mk_match_rest)
  qed
qed

lemma exec_all_total:
  "0 < minlen re \<Longrightarrow> \<exists>found. exec_all re b r = Some found"
proof (induction re b r rule: exec_all.induct)
  case (1 re b r)
  note pos = \<open>0 < minlen re\<close>
  show ?case
  proof (cases "search re b r")
    case None
    then show ?thesis by (simp add: exec_all.simps)
  next
    case (Some m)
    from search_minlen [OF Some] pos have lt: "length (m_rest m) < length r" by linarith
    from 1(1) [OF Some lt pos] obtain found where "exec_all re (m_before m) (m_rest m) = Some found" by blast
    with Some lt show ?thesis by (simp add: exec_all.simps [of re b r])
  qed
qed


lemma minlen_seqs [simp]: "minlen (seqs rs) = sum_list (map minlen rs)"
  by (induction rs) (simp_all add: seqs_def)

lemma minlen_ident [simp]: "minlen ident = 1"
  by (simp add: ident_def)

lemma minlen_assign_re: "0 < minlen (assign_re rhs)"
  by (simp add: assign_re_def)

lemma minlen_def_re: "0 < minlen def_re"
  by (simp add: def_re_def)

lemma minlen_annot_re: "0 < minlen annot_re"
  by (simp add: annot_re_def)


lemma map_of_foldl_assignment:
  "map_of (foldl (add_assignment t) vs found) x =
     (if x \<in> set (map (\<lambda>m. grp m 1) found) then Some t else map_of vs x)"
  by (induction found arbitrary: vs) (auto simp: add_assignment_def update_conv')

lemma apply_regs_lookup:
  assumes "\<forall>re \<in> set regs. 0 < minlen re"
  shows "\<exists>vs'. apply_regs t regs text vs = Some vs' \<and>
           map_of vs' x = (if list_ex (\<lambda>re. captured re text x) regs then Some t else map_of vs x)"
  using assms
proof (induction regs arbitrary: vs)
  case Nil
  then show ?case by simp
next
  case (Cons re regs)
  from Cons.prems have "0 < minlen re" by simp
  from exec_all_total [OF this] obtain found where found: "exec_all re [] text = Some found"
    by blast
  from Cons.prems have rest: "\<forall>re \<in> set regs. 0 < minlen re" by simp
  from Cons.IH [OF rest, of "foldl (add_assignment t) vs found"] obtain vs' where
    vs': "apply_regs t regs text (foldl (add_assignment t) vs found) = Some vs'" and
    look: "map_of vs' x =
       (if list_ex (\<lambda>re. captured re text x) regs then Some t
        else map_of (foldl (add_assignment t) vs found) x)"
    by blast
  from found have cap: "captured re text x = (x \<in> set (map (\<lambda>m. grp m 1) found))"
    by (simp add: captured_def)
  from found vs' look cap show ?case
    by (simp add: map_of_foldl_assignment)
qed

lemma assign_patterns_progress:
  "(t, regs) \<in> set assignPatterns \<Longrightarrow> \<forall>re \<in> set regs. 0 < minlen re"
  by (auto simp: assignPatterns_def list_patterns_def dict_patterns_def set_patterns_def
                 str_patterns_def minlen_assign_re)

lemma apply_patterns_lookup:
  "\<exists>vs'. apply_patterns assignPatterns text vs = Some vs' \<and>
     map_of vs' x =
       (if assigned TStr text x then Some TStr
        else if assigned TSet text x then Some TSet
        else if assigned TDict text x then Some TDict
        else if assigned TList text x then Some TList
        else map_of vs x)"
proof -
  have p1: "\<forall>re \<in> set list_patterns. 0 < minlen re"
    using assign_patterns_progress [of TList list_patterns] by (simp add: assignPatterns_def)
  have p2: "\<forall>re \<in> set dict_patterns. 0 < minlen re"
    using assign_patterns_progress [of TDict dict_patterns] by (simp add: assignPatterns_def)
  have p3: "\<forall>re \<in> set set_patterns. 0 < minlen re"
    using assign_patterns_progress [of TSet set_patterns] by (simp add: assignPatterns_def)
  have p4: "\<forall>re \<in> set str_patterns. 0 < minlen re"
    using assign_patterns_progress [of TStr str_patterns] by (simp add: assignPatterns_def)
  obtain v1 where v1: "apply_regs TList list_patterns text vs = Some v1"
    and l1: "map_of v1 x = (if list_ex (\<lambda>re. captured re text x) list_patterns then Some TList else map_of vs x)"
    using apply_regs_lookup [OF p1] by blast
  obtain v2 where v2: "apply_regs TDict dict_patterns text v1 = Some v2"
    and l2: "map_of v2 x = (if list_ex (\<lambda>re. captured re text x) dict_patterns then Some TDict else map_of v1 x)"
    using apply_regs_lookup [OF p2] by blast
  obtain v3 where v3: "apply_regs TSet set_patterns text v2 = Some v3"
    and l3: "map_of v3 x = (if list_ex (\<lambda>re. captured re text x) set_patterns then Some TSet else map_of v2 x)"
    using apply_regs_lookup [OF p3] by blast
  obtain v4 where v4: "apply_regs TStr str_patterns text v3 = Some v4"
    and l4: "map_of v4 x = (if list_ex (\<lambda>re. captured re text x) str_patterns then Some TStr else map_of v3 x)"
    using apply_regs_lookup [OF p4] by blast
  have a: "assigned TList text x = list_ex (\<lambda>re. captured re text x) list_patterns"
    "assigned TDict text x = list_ex (\<lambda>re. captured re text x) dict_patterns"
    "assigned TSet text x = list_ex (\<lambda>re. captured re text x) set_patterns"
    "assigned TStr text x = list_ex (\<lambda>re. captured re text x) str_patterns"
    by (simp_all add: assigned_def assignPatterns_def)
  have "apply_patterns assignPatterns text vs = Some v4"
    by (simp add: assignPatterns_def v1 v2 v3 v4)
  moreover have "map_of v4 x =
       (if assigned TStr text x then Some TStr
        else if assigned TSet text x then Some TSet
        else if assigned TDict text x then Some TDict
        else if assigned TList text x then Some TList
        else map_of vs x)"
    by (simp add: a l1 l2 l3 l4)
  ultimately show ?thesis by blast
qed

lemma buildSymbolIndex_lookup:
  "\<exists>idx annots. buildSymbolIndex text = Some idx \<and> exec_all annot_re [] text = Some annots \<and>
     map_of (vars idx) x =
       (if assigned TStr text x then Some TStr
        else if assigned TSet text x then Some TSet
        else if assigned TDict text x then Some TDict
        else if assigned TList text x then Some TList
        else map_of (foldl add_annotation [] annots) x)"
proof -
  from exec_all_total [OF minlen_def_re] obtain dfs where dfs: "exec_all def_re [] text = Some dfs"
    by blast
  from exec_all_total [OF minlen_annot_re] obtain annots where
    annots: "exec_all annot_re [] text = Some annots"
    by blast
  from apply_patterns_lookup [of "text" "foldl add_annotation [] annots" x] obtain vs' where
    vs': "apply_patterns assignPatterns text (foldl add_annotation [] annots) = Some vs'" and
    look: "map_of vs' x =
       (if assigned TStr text x then Some TStr
        else if assigned TSet text x then Some TSet
        else if assigned TDict text x then Some TDict
        else if assigned TList text x then Some TList
        else map_of (foldl add_annotation [] annots) x)"
    by blast
  from dfs annots vs' look show ?thesis
    by (simp add: buildSymbolIndex_def)
qed

lemma buildSymbolIndex_total: "\<exists>idx. buildSymbolIndex text = Some idx"
  using buildSymbolIndex_lookup [of "text" "[]"] by blast



section \<open>Type inference: the order of the rule categories\<close>





section \<open>Completion after a variable and a dot\<close>



section \<open>Signature help: the case of the names\<close>

lemma find_lower_eq:
  "toLowerCase a = b \<Longrightarrow> find (\<lambda>(k, _). toLowerCase k = toLowerCase a) xs = find (\<lambda>(k, _). toLowerCase k = b) xs"
  by simp



section \<open>Hover: the dotted token and the word\<close>





section \<open>A build that throws\<close>

text \<open>
  Claim C2, as the code has it. When building the index throws, no caller sees the
  exception. The first query for a document without an index stores and returns the empty
  index; a query for a document with an index returns that index without building; the
  rebuild that a timer runs leaves the state as it was.
\<close>

theorem build_exception_contained:
  "try_build model = Some (Inl e) \<longrightarrow>
     (symbolIndexes st (modelKey model) = None \<longrightarrow>
        getOrBuildIndex st model =
          Some (empty_index, st \<lparr> symbolIndexes := (symbolIndexes st)(modelKey model \<mapsto> empty_index) \<rparr>)) \<and>
     (\<forall>idx. symbolIndexes st (modelKey model) = Some idx \<longrightarrow> getOrBuildIndex st model = Some (idx, st)) \<and>
     rebuild st key model = Some st"
  by (simp add: getOrBuildIndex_def rebuild_def)

theorem build_exception_contained_witness:
  "try_build disposed_model = Some (Inl (Thrown ''Model is disposed!'')) \<and>
   getOrBuildIndex manager_empty disposed_model =
     Some (empty_index, manager_empty \<lparr> symbolIndexes := [''default'' \<mapsto> empty_index] \<rparr>) \<and>
   getOrBuildIndex manager_f3 disposed_model = Some (index_f3, manager_f3) \<and>
   rebuild manager_f3 ''default'' disposed_model = Some manager_f3"
proof -
  have t: "try_build disposed_model = Some (Inl (Thrown ''Model is disposed!''))"
    by (simp add: try_build_def disposed_model_def)
  have k: "modelKey disposed_model = ''default''"
    by (simp add: modelKey_def disposed_model_def)
  from build_exception_contained [of disposed_model _ manager_empty "''default''"]
       build_exception_contained [of disposed_model _ manager_f3 "''default''"] t k
  show ?thesis
    by (simp add: manager_empty_def manager_f3_def)
qed

text \<open>
  Claim C2 as stated fails for the rebuild of a timer: after a rebuild that throws, the
  index of the document is the one it had before, which need not be the empty index.
\<close>

theorem rebuild_exception_keeps_previous_index:
  "try_build disposed_model = Some (Inl (Thrown ''Model is disposed!'')) \<and>
   rebuild manager_f3 ''default'' disposed_model = Some manager_f3 \<and>
   symbolIndexes manager_f3 ''default'' = Some index_f3 \<and>
   index_f3 \<noteq> empty_index"
  by (simp add: try_build_def rebuild_def disposed_model_def manager_f3_def index_f3_def
        empty_index_def)

section \<open>Top-level completion: the tiers and their sort keys\<close>

lemma map_idx_nth:
  "i < length xs \<Longrightarrow> map_idx f xs ! i = f (xs ! i) i"
  by (simp add: map_idx_def nth_enumerate_eq)

lemma length_map_idx [simp]: "length (map_idx f xs) = length xs"
  by (simp add: map_idx_def)

lemma map_idx_set:
  "a \<in> set (map_idx f xs) \<Longrightarrow> \<exists>i < length xs. a = f (xs ! i) i"
  by (metis in_set_conv_nth length_map_idx map_idx_nth)

lemma map_idx_map:
  assumes "\<And>x i. g (f x i) = h x"
  shows "map g (map_idx f xs) = map h xs"
  by (rule nth_equalityI) (simp_all add: map_idx_nth assms)

lemma digit_cases:
  "d < 10 \<Longrightarrow> d = 0 \<or> d = 1 \<or> d = 2 \<or> d = 3 \<or> d = 4 \<or> d = 5 \<or> d = 6 \<or> d = 7 \<or> d = 8 \<or> d = (9::nat)"
  by arith

lemma of_char_digit_char:
  "d < 10 \<Longrightarrow> of_char (digit_char d) = 48 + d"
  by (drule digit_cases) (auto simp: digit_char_def)

lemma digit_char_less:
  "d < 10 \<Longrightarrow> e < 10 \<Longrightarrow> (digit_char d < digit_char e) = (d < e)"
  by (simp add: less_char_def of_char_digit_char)

lemma digit_char_eq:
  assumes "d < 10" "e < 10"
  shows "(digit_char d = digit_char e) = (d = e)"
proof
  assume "digit_char d = digit_char e"
  then have "(of_char (digit_char d) :: nat) = of_char (digit_char e)" by simp
  with assms show "d = e" by (simp add: of_char_digit_char)
qed simp

lemma toString_digits:
  assumes "n < 1000"
  shows "toString n =
     (if n < 10 then [digit_char n]
      else if n < 100 then [digit_char (n div 10), digit_char (n mod 10)]
      else [digit_char (n div 100), digit_char (n div 10 mod 10), digit_char (n mod 10)])"
proof -
  have one: "toString k = [digit_char k]" if "k < 10" for k
    using that by (simp add: toString.simps [of k])
  have two: "toString k = [digit_char (k div 10), digit_char (k mod 10)]" if "10 \<le> k" "k < 100" for k
  proof -
    from that have "k div 10 < 10" by simp
    with that show ?thesis by (simp add: toString.simps [of k] one)
  qed
  have three: "toString k = [digit_char (k div 100), digit_char (k div 10 mod 10), digit_char (k mod 10)]"
    if "100 \<le> k" "k < 1000" for k
  proof -
    from that have a: "10 \<le> k div 10" "k div 10 < 100" by simp_all
    have b: "k div 10 div 10 = k div 100" by (simp add: div_mult2_eq)
    from that a show ?thesis by (simp add: toString.simps [of k] two b)
  qed
  from assms show ?thesis by (simp add: one two three)
qed

lemma pad3:
  assumes "n < 1000"
  shows "padStart 3 CHR ''0'' (toString n) =
           [digit_char (n div 100), digit_char (n div 10 mod 10), digit_char (n mod 10)]"
proof -
  have z: "digit_char 0 = CHR ''0''" by (simp add: digit_char_def)
  show ?thesis
  proof (cases "n < 10")
    case True
    then show ?thesis by (simp add: toString_digits padStart_def z numeral_3_eq_3)
  next
    case False
    show ?thesis
    proof (cases "n < 100")
      case True
      with False assms show ?thesis by (simp add: toString_digits padStart_def z numeral_3_eq_3)
    next
      case False
      with assms show ?thesis by (simp add: toString_digits padStart_def)
    qed
  qed
qed

lemma digits3:
  "(n::nat) = 100 * (n div 100) + 10 * (n div 10 mod 10) + n mod 10"
proof -
  have "n div 10 = 10 * (n div 10 div 10) + n div 10 mod 10" by simp
  moreover have "n div 10 div 10 = n div 100" by (simp add: div_mult2_eq)
  moreover have "n = 10 * (n div 10) + n mod 10" by simp
  ultimately show ?thesis by linarith
qed

lemma digits3_less:
  fixes a1 a2 a3 b1 b2 b3 :: nat
  assumes "100 * a1 + 10 * a2 + a3 < 100 * b1 + 10 * b2 + b3"
    and "a2 < 10" "a3 < 10" "b2 < 10" "b3 < 10"
  shows "a1 < b1 \<or> a1 = b1 \<and> (a2 < b2 \<or> a2 = b2 \<and> a3 < b3)"
  using assms by arith

lemma pad3_less:
  assumes "i < j" "j < 1000"
  shows "padStart 3 CHR ''0'' (toString i) < padStart 3 CHR ''0'' (toString j)"
proof -
  from assms have i: "i < 1000" by simp
  have d: "i div 100 < 10" "j div 100 < 10" "i div 10 mod 10 < 10" "j div 10 mod 10 < 10"
    "i mod 10 < 10" "j mod 10 < 10"
    using assms by simp_all
  have "i div 100 < j div 100 \<or> i div 100 = j div 100 \<and>
        (i div 10 mod 10 < j div 10 mod 10 \<or> i div 10 mod 10 = j div 10 mod 10 \<and> i mod 10 < j mod 10)"
    using assms(1) d digits3 [of i] digits3 [of j]
    by (intro digits3_less) linarith+
  then show ?thesis
    by (simp add: pad3 i assms digit_char_less digit_char_eq d)
qed

lemma sort_key_less_same_tier:
  assumes "i < j" "j < 1000"
  shows "sort_key tier i n < sort_key tier j m"
proof -
  have app: "p @ a < p @ b \<longleftrightarrow> a < b" for p a b :: string
    by (induction p) simp_all
  have len: "a @ x < b @ y" if "a < b" "length a = length b" for a b x y :: string
    using that
  proof (induction a arbitrary: b)
    case Nil
    then show ?case by simp
  next
    case (Cons c a)
    then show ?case by (cases b) auto
  qed
  have l3: "length (padStart 3 CHR ''0'' (toString k)) = 3" if "k < 1000" for k
    using that by (simp add: pad3)
  from assms have "i < 1000" by simp
  with pad3_less [OF assms] l3 assms have
    "padStart 3 CHR ''0'' (toString i) @ ''_'' @ n < padStart 3 CHR ''0'' (toString j) @ ''_'' @ m"
    by (intro len) simp_all
  then show ?thesis
    unfolding sort_key_def by (simp only: app)
qed

lemma sort_key_tiers:
  "sort_key ''1'' i n < sort_key ''1a'' j m"
  "sort_key ''1'' i n < sort_key ''2'' j m"
  "sort_key ''1'' i n < sort_key ''3'' j m"
  "sort_key ''1a'' i n < sort_key ''2'' j m"
  "sort_key ''1a'' i n < sort_key ''3'' j m"
  "sort_key ''2'' i n < sort_key ''3'' j m"
  by (simp_all add: sort_key_def)

lemma tier_sorted:
  assumes "length xs \<le> 1000"
    and "\<And>x i. ci_sortText (f x i) = sort_key tier i (name x)"
  shows "sorted_wrt (<) (map ci_sortText (map_idx f xs))"
proof -
  have "ci_sortText (map_idx f xs ! i) < ci_sortText (map_idx f xs ! j)"
    if "i < j" "j < length xs" for i j
  proof -
    from that assms(1) have "j < 1000" "i < length xs" by simp_all
    with that show ?thesis
      by (simp add: map_idx_nth assms(2) sort_key_less_same_tier)
  qed
  then show ?thesis
    by (simp add: sorted_wrt_iff_nth_less)
qed

lemma tier_keys:
  assumes "a \<in> set (map_idx f xs)"
    and "\<And>x i. ci_sortText (f x i) = sort_key tier i (name x)"
  shows "\<exists>i n. ci_sortText a = sort_key tier i n"
  using map_idx_set [OF assms(1)] assms(2) by auto

lemma local_key: "ci_sortText ((\<lambda>(name, info) idx.
        \<lparr> ci_label = name, ci_kind = Function, ci_insertText = name @ ''()'', ci_range = rng,
          ci_detail = ''function (document)'', ci_documentation = Some (fi_label info),
          ci_sortText = sort_key ''1'' idx name, ci_preselect = None \<rparr>) x i) = sort_key ''1'' i (fst x)"
  by (cases x) simp

lemma function_key: "ci_sortText ((\<lambda>(name, info) idx.
        \<lparr> ci_label = name, ci_kind = Function, ci_insertText = name @ ''()'', ci_range = rng,
          ci_detail = ''function'', ci_documentation = doc_value (doc info),
          ci_sortText = sort_key ''2'' idx name, ci_preselect = None \<rparr>) x i) = sort_key ''2'' i (fst x)"
  by (cases x) simp

lemma constant_key: "ci_sortText ((\<lambda>(name, d) idx.
        \<lparr> ci_label = name, ci_kind = Constant, ci_insertText = name, ci_range = rng,
          ci_detail = ''constant'', ci_documentation = doc_value d,
          ci_sortText = sort_key ''3'' idx name, ci_preselect = None \<rparr>) x i) = sort_key ''3'' i (fst x)"
  by (cases x) simp

lemma tier_key_shapes:
  "a \<in> set (localFunctionSuggestions symIndex rng) \<Longrightarrow> \<exists>i n. ci_sortText a = sort_key ''1'' i n"
  "a \<in> set (classSuggestions builtins rng) \<Longrightarrow> \<exists>i n. ci_sortText a = sort_key ''1a'' i n"
  "a \<in> set (functionSuggestions builtins rng) \<Longrightarrow> \<exists>i n. ci_sortText a = sort_key ''2'' i n"
  "a \<in> set (constantSuggestions builtins rng) \<Longrightarrow> \<exists>i n. ci_sortText a = sort_key ''3'' i n"
  unfolding localFunctionSuggestions_def classSuggestions_def functionSuggestions_def
    constantSuggestions_def
  by (erule tier_keys, rule local_key, erule tier_keys [where name = id], simp,
      erule tier_keys, rule function_key, erule tier_keys, rule constant_key)

lemma tiers_sorted:
  "length (fns symIndex) \<le> 1000 \<Longrightarrow> sorted_wrt (<) (map ci_sortText (localFunctionSuggestions symIndex rng))"
  "length (classNames builtins) \<le> 1000 \<Longrightarrow> sorted_wrt (<) (map ci_sortText (classSuggestions builtins rng))"
  "length (cfunctions builtins) \<le> 1000 \<Longrightarrow> sorted_wrt (<) (map ci_sortText (functionSuggestions builtins rng))"
  "length (constants builtins) \<le> 1000 \<Longrightarrow> sorted_wrt (<) (map ci_sortText (constantSuggestions builtins rng))"
  unfolding localFunctionSuggestions_def classSuggestions_def functionSuggestions_def
    constantSuggestions_def
  by (erule tier_sorted, rule local_key, erule tier_sorted [where name = id], simp,
      erule tier_sorted, rule function_key, erule tier_sorted, rule constant_key)

lemma tier_labels:
  "map ci_label (localFunctionSuggestions symIndex rng) = map fst (fns symIndex)"
  "map ci_label (classSuggestions builtins rng) = classNames builtins"
  "map ci_label (functionSuggestions builtins rng) = map fst (cfunctions builtins)"
  "map ci_label (constantSuggestions builtins rng) = map fst (constants builtins)"
  unfolding localFunctionSuggestions_def classSuggestions_def functionSuggestions_def
    constantSuggestions_def
  by (rule map_idx_map, simp add: split_beta, rule trans [OF map_idx_map [where h = id]], simp, simp,
      rule map_idx_map, simp add: split_beta, rule map_idx_map, simp add: split_beta)

lemma less_four: "j < (4::nat) \<Longrightarrow> j = 0 \<or> j = 1 \<or> j = 2 \<or> j = 3"
  by arith

text \<open>
  Claim C6, as the code has it. The top-level suggestions are the functions of the
  document, the class names, the functions and the constants of the catalog, in this order
  and each tier in its own order; a query that the member branch does not answer returns
  them. Every sort key of an earlier tier is strictly below every sort key of a later tier
  (in the order of the code units), and within a tier of at most 1000 entries the sort keys
  increase strictly.
\<close>

theorem top_level_tiers:
  "map ci_label (top_level_completions builtins symIndex rng) =
     map fst (fns symIndex) @ classNames builtins @ map fst (cfunctions builtins) @
     map fst (constants builtins) \<and>
   top_level_completions builtins symIndex rng = concat (tiers builtins symIndex rng) \<and>
   (member_completions builtins symIndex rng (trimEnd lineText) = None \<longrightarrow>
      provideCompletionItems builtins symIndex rng lineText =
        top_level_completions builtins symIndex rng) \<and>
   (\<forall>i j. i < j \<and> j < 4 \<longrightarrow>
      (\<forall>a \<in> set (tiers builtins symIndex rng ! i). \<forall>b \<in> set (tiers builtins symIndex rng ! j).
         ci_sortText a < ci_sortText b)) \<and>
   (\<forall>t \<in> set (tiers builtins symIndex rng). length t \<le> 1000 \<longrightarrow> sorted_wrt (<) (map ci_sortText t))"
proof -
  have labels: "map ci_label (top_level_completions builtins symIndex rng) =
     map fst (fns symIndex) @ classNames builtins @ map fst (cfunctions builtins) @
     map fst (constants builtins)"
    by (simp add: top_level_completions_def tier_labels)
  have cat: "top_level_completions builtins symIndex rng = concat (tiers builtins symIndex rng)"
    by (simp add: top_level_completions_def tiers_def)
  have top: "member_completions builtins symIndex rng (trimEnd lineText) = None \<longrightarrow>
      provideCompletionItems builtins symIndex rng lineText =
        top_level_completions builtins symIndex rng"
    by (simp add: provideCompletionItems_def)
  have across: "ci_sortText a < ci_sortText b"
    if "i < j" "j < 4" "a \<in> set (tiers builtins symIndex rng ! i)"
       "b \<in> set (tiers builtins symIndex rng ! j)" for i j a b
  proof -
    from that(1,2) have "(i = 0 \<and> j = 1) \<or> (i = 0 \<and> j = 2) \<or> (i = 0 \<and> j = 3) \<or>
        (i = 1 \<and> j = 2) \<or> (i = 1 \<and> j = 3) \<or> (i = 2 \<and> j = 3)"
      by arith
    with that(3,4) show ?thesis
      by (auto simp: tiers_def dest!: tier_key_shapes simp: sort_key_tiers)
  qed
  have within: "sorted_wrt (<) (map ci_sortText t)"
    if "t \<in> set (tiers builtins symIndex rng)" "length t \<le> 1000" for t
    using that
    by (auto simp: tiers_def localFunctionSuggestions_def classSuggestions_def
          functionSuggestions_def constantSuggestions_def
          intro: tiers_sorted [unfolded localFunctionSuggestions_def classSuggestions_def
          functionSuggestions_def constantSuggestions_def])
  from labels cat top across within show ?thesis by blast
qed

theorem top_level_tiers_witness:
  "member_completions builtins_sample index_Foo rng0 (trimEnd []) = None \<and>
   map ci_label (provideCompletionItems builtins_sample index_Foo rng0 []) =
     [''Foo'', ''Items'', ''move'', ''North''] \<and>
   map ci_sortText (provideCompletionItems builtins_sample index_Foo rng0 []) =
     [''1_000_Foo'', ''1a_000_Items'', ''2_000_move'', ''3_000_North'']"
proof -
  have n: "member_completions builtins_sample index_Foo rng0 (trimEnd []) = None"
    by (simp add: member_completions_def member_access_re_def char_class_defs string_defs
          regex_defs)
  from top_level_tiers [of builtins_sample index_Foo rng0 "[]"] n
  have p: "provideCompletionItems builtins_sample index_Foo rng0 [] =
      top_level_completions builtins_sample index_Foo rng0"
    and l: "map ci_label (top_level_completions builtins_sample index_Foo rng0) =
      map fst (fns index_Foo) @ classNames builtins_sample @ map fst (cfunctions builtins_sample) @
      map fst (constants builtins_sample)"
    by blast+
  have k: "map ci_sortText (top_level_completions builtins_sample index_Foo rng0) =
     [''1_000_Foo'', ''1a_000_Items'', ''2_000_move'', ''3_000_North'']"
    by (simp add: completion_defs string_defs builtins_sample_def index_Foo_def numeral_2_eq_2)
  from n p l k show ?thesis
    by (simp add: builtins_sample_def index_Foo_def)
qed

text \<open>
  Claim C6 as stated fails within a tier of more than 1000 entries: the index is padded to
  three digits, and the key of the entry 1000 is below the key of the entry 999.
\<close>

theorem sort_keys_beyond_1000_out_of_order:
  "length (provideCompletionItems no_builtins index_1001 rng0 []) = 1001 \<and>
   ci_label (provideCompletionItems no_builtins index_1001 rng0 [] ! 999) = ''f999'' \<and>
   ci_label (provideCompletionItems no_builtins index_1001 rng0 [] ! 1000) = ''f1000'' \<and>
   ci_sortText (provideCompletionItems no_builtins index_1001 rng0 [] ! 999) = ''1_999_f999'' \<and>
   ci_sortText (provideCompletionItems no_builtins index_1001 rng0 [] ! 1000) = ''1_1000_f1000'' \<and>
   ''1_1000_f1000'' < ''1_999_f999''"
proof -
  have n: "member_completions no_builtins index_1001 rng0 (trimEnd []) = None"
    by (simp add: member_completions_def member_access_re_def char_class_defs string_defs
          regex_defs)
  have p: "provideCompletionItems no_builtins index_1001 rng0 [] =
      localFunctionSuggestions index_1001 rng0"
  proof -
    have "top_level_completions no_builtins index_1001 rng0 =
        localFunctionSuggestions index_1001 rng0"
      by (simp add: top_level_completions_def classSuggestions_def functionSuggestions_def
            constantSuggestions_def no_builtins_def map_idx_def)
    with n show ?thesis
      by (simp only: provideCompletionItems_def option.simps)
  qed
  have len: "length (fns index_1001) = 1001"
    by (simp add: index_1001_def)
  have f: "fns index_1001 ! i =
      (''f'' @ toString i, \<lparr> fi_params = [], fi_label = ''f'' @ toString i @ ''()'' \<rparr>)"
    if "i < 1001" for i
    using that by (simp add: index_1001_def)
  have t: "toString 999 = ''999''" "toString 1000 = ''1000''"
    by (simp_all add: toString.simps digit_char_def)
  have i999: "localFunctionSuggestions index_1001 rng0 ! 999 =
      \<lparr> ci_label = ''f999'', ci_kind = Function, ci_insertText = ''f999()'', ci_range = rng0,
        ci_detail = ''function (document)'', ci_documentation = Some ''f999()'',
        ci_sortText = ''1_999_f999'', ci_preselect = None \<rparr>"
    by (simp add: localFunctionSuggestions_def map_idx_nth len f t sort_key_def padStart_def)
  have i1000: "localFunctionSuggestions index_1001 rng0 ! 1000 =
      \<lparr> ci_label = ''f1000'', ci_kind = Function, ci_insertText = ''f1000()'', ci_range = rng0,
        ci_detail = ''function (document)'', ci_documentation = Some ''f1000()'',
        ci_sortText = ''1_1000_f1000'', ci_preselect = None \<rparr>"
    by (simp add: localFunctionSuggestions_def map_idx_nth len f t sort_key_def padStart_def)
  have l: "length (localFunctionSuggestions index_1001 rng0) = 1001"
    by (simp add: localFunctionSuggestions_def len)
  have lt: "''1_1000_f1000'' < ''1_999_f999''"
    by simp
  from p i999 i1000 l lt show ?thesis by simp
qed

section \<open>Matches are texts of the pattern\<close>







section \<open>A brace literal without a colon\<close>






lemma lang_seqs_Cons [simp]: "lang (seqs (r # rs)) u = (\<exists>u1 u2. u = u1 @ u2 \<and> lang r u1 \<and> lang (seqs rs) u2)"
  by (simp add: seqs_def)

lemma lang_seqs_Nil [simp]: "lang (seqs []) u = (u = [])"
  by (simp add: seqs_def)

















section \<open>Debounce: one rebuild for a burst of edits\<close>

lemma modelKey_getValue [simp]: "modelKey (m \<lparr> getValue := v \<rparr>) = modelKey m"
  by (simp add: modelKey_def)

lemma first_edit:
  assumes "pending w = []" "0 < next_id w"
  shows "\<exists>w'. edit (t, s) w = Some w' \<and> armed w' t s (modelKey (document w)) (next_id w) \<and>
           rebuilds w' = rebuilds w"
  using assms
  by (auto simp: edit_def advance_def onDidChangeContent_def clearTimeout_def setTimeout_def
        armed_def Let_def split: option.splits)

lemma next_edit:
  assumes "armed w t s key i" "t \<le> t'" "t' < t + debounce"
  shows "\<exists>w'. edit (t', s') w = Some w' \<and> armed w' t' s' key (i + 1) \<and> rebuilds w' = rebuilds w"
  using assms
  by (auto simp: edit_def advance_def onDidChangeContent_def clearTimeout_def setTimeout_def
        armed_def Let_def)

lemma more_edits:
  assumes "armed w t s key i" "within_quiet t es"
  shows "\<exists>w'. edits es w = Some w' \<and>
           armed w' (fst (last ((t, s) # es))) (snd (last ((t, s) # es))) key (i + length es) \<and>
           rebuilds w' = rebuilds w"
  using assms
proof (induction es arbitrary: w t s i)
  case Nil
  then show ?case by simp
next
  case (Cons e es)
  obtain t' s' where e: "e = (t', s')" by (cases e)
  with Cons.prems have q: "t \<le> t'" "t' < t + debounce" "within_quiet t' es" by simp_all
  from next_edit [OF Cons.prems(1) q(1,2), of s'] obtain w1 where
    w1: "edit (t', s') w = Some w1" "armed w1 t' s' key (i + 1)" "rebuilds w1 = rebuilds w"
    by blast
  from Cons.IH [OF w1(2) q(3)] obtain w' where
    "edits es w1 = Some w'"
    "armed w' (fst (last ((t', s') # es))) (snd (last ((t', s') # es))) key (i + 1 + length es)"
    "rebuilds w' = rebuilds w1"
    by blast
  with w1 e show ?case by simp
qed

lemma timer_runs:
  assumes "armed w t s key i" "t + debounce \<le> T"
  shows "\<exists>w' idx. advance T w = Some w' \<and> rebuilds w' = rebuilds w @ [(i, Inr s)] \<and>
           pending w' = [] \<and> indexTimers (mgr w') key = Some i \<and>
           buildSymbolIndex s = Some idx \<and> symbolIndexes (mgr w') key = Some idx"
proof -
  from buildSymbolIndex_total obtain idx where idx: "buildSymbolIndex s = Some idx" by blast
  with assms show ?thesis
    by (simp add: advance_def run_timer_def rebuild_def try_build_def armed_def)
qed

lemma within_quiet_take: "within_quiet t es \<Longrightarrow> within_quiet t (take k es)"
proof (induction es arbitrary: t k)
  case Nil
  then show ?case by simp
next
  case (Cons e es)
  then show ?case by (cases k; cases e) auto
qed

text \<open>
  Claim C7. A document has no pending timer; then edits come, each one no earlier than the
  one before and before the timer of the one before is due, and then time passes until the
  timer of the last edit is due. In all this exactly one rebuild runs: the one of the timer
  that the last notification set, the timer whose number the manager holds, and it reads the
  text of the last edit, so that the index of the document is the index of that text. After
  each notification exactly one timer is pending, the one it set: the timer of the
  notification before was cleared, and no rebuild has run.
\<close>

theorem debounce_one_rebuild:
  assumes "pending w = []" and "0 < next_id w" and "within_quiet t es"
    and "fst (last ((t, s) # es)) + debounce \<le> T"
  shows "\<exists>w' idx. Option.bind (edits ((t, s) # es) w) (advance T) = Some w' \<and>
           rebuilds w' = rebuilds w @ [(next_id w + length es, Inr (snd (last ((t, s) # es))))] \<and>
           pending w' = [] \<and>
           indexTimers (mgr w') (modelKey (document w)) = Some (next_id w + length es) \<and>
           buildSymbolIndex (snd (last ((t, s) # es))) = Some idx \<and>
           symbolIndexes (mgr w') (modelKey (document w)) = Some idx \<and>
           (\<forall>k \<le> length es. \<exists>w1. edits ((t, s) # take k es) w = Some w1 \<and>
              rebuilds w1 = rebuilds w \<and>
              pending w1 = [(next_id w + k, fst (last ((t, s) # take k es)) + debounce,
                             modelKey (document w))])"
proof -
  let ?key = "modelKey (document w)"
  from first_edit [OF assms(1,2), of t s] obtain w0 where
    w0: "edit (t, s) w = Some w0" "armed w0 t s ?key (next_id w)" "rebuilds w0 = rebuilds w"
    by blast
  from more_edits [OF w0(2) assms(3)] obtain w1 where
    w1: "edits es w0 = Some w1"
      "armed w1 (fst (last ((t, s) # es))) (snd (last ((t, s) # es))) ?key (next_id w + length es)"
      "rebuilds w1 = rebuilds w0"
    by blast
  from timer_runs [OF w1(2) assms(4)] obtain w' idx where
    w': "advance T w1 = Some w'"
      "rebuilds w' = rebuilds w1 @ [(next_id w + length es, Inr (snd (last ((t, s) # es))))]"
      "pending w' = []" "indexTimers (mgr w') ?key = Some (next_id w + length es)"
      "buildSymbolIndex (snd (last ((t, s) # es))) = Some idx"
      "symbolIndexes (mgr w') ?key = Some idx"
    by blast
  have run: "Option.bind (edits ((t, s) # es) w) (advance T) = Some w'"
    using w0(1) w1(1) w'(1) by simp
  have pre: "\<exists>w2. edits ((t, s) # take k es) w = Some w2 \<and> rebuilds w2 = rebuilds w \<and>
      pending w2 = [(next_id w + k, fst (last ((t, s) # take k es)) + debounce, ?key)]"
    if "k \<le> length es" for k
  proof -
    from more_edits [OF w0(2) within_quiet_take [OF assms(3), of k]] obtain w2 where
      w2: "edits (take k es) w0 = Some w2"
        "armed w2 (fst (last ((t, s) # take k es))) (snd (last ((t, s) # take k es))) ?key
           (next_id w + length (take k es))"
        "rebuilds w2 = rebuilds w0"
      by blast
    from that have "length (take k es) = k" by simp
    with w2 w0 show ?thesis by (simp add: armed_def)
  qed
  from run w' w1(3) w0(3) pre show ?thesis by auto
qed

theorem debounce_one_rebuild_witness:
  "pending world0 = [] \<and> 0 < next_id world0 \<and>
   within_quiet 10 [(60, ''def f(x, y''), (150, ''def f(x, y, z):'')] \<and>
   map_option rebuilds (Option.bind (edits three_edits world0) (advance 350)) =
     Some [(3, Inr ''def f(x, y, z):'')] \<and>
   map_option (\<lambda>w. symbolIndexes (mgr w) ''default'') (Option.bind (edits three_edits world0) (advance 350)) =
     Some (Some index_f3)"
proof -
  have h: "pending world0 = []" "0 < next_id world0"
    "within_quiet 10 [(60, ''def f(x, y''), (150, ''def f(x, y, z):'')]"
    "fst (last ((10, ''d'') # [(60, ''def f(x, y''), (150, ''def f(x, y, z):'')])) + debounce \<le> 350"
    by (simp_all add: world0_def debounce_def)
  have b: "buildSymbolIndex ''def f(x, y, z):'' = Some index_f3"
    by (simp add: eval_defs index_f3_def)
  have k: "modelKey (document world0) = ''default''"
    by (simp add: world0_def modelKey_def)
  from debounce_one_rebuild [OF h] obtain w' idx where
    "Option.bind (edits three_edits world0) (advance 350) = Some w'"
    "rebuilds w' = rebuilds world0 @ [(next_id world0 + 2, Inr ''def f(x, y, z):'')]"
    "buildSymbolIndex ''def f(x, y, z):'' = Some idx"
    "symbolIndexes (mgr w') (modelKey (document world0)) = Some idx"
    by (auto simp: three_edits_def)
  with b k h show ?thesis
    by (simp add: world0_def)
qed

section \<open>The parser and the indexer are functions of the text\<close>




end
